theory Spec2Isabelle
  imports Main
begin

section \<open>Tasks\<close>

text \<open>
  A task is the object literal \<^verbatim>\<open>{ id, text, complete }\<close> built by
  \<^verbatim>\<open>handleAddTodo\<close> and rebuilt by \<^verbatim>\<open>editTodo\<close> and \<^verbatim>\<open>toggleTodo\<close>.
  Ids are integers: the handler creates them as \<^verbatim>\<open>1\<close> or \<^verbatim>\<open>last.id + 1\<close>, and the
  ids handed to the Model come from \<^verbatim>\<open>parseInt\<close>. They are modelled as unbounded
  integers, which is exact for the numbers of JavaScript below \<open>2^53\<close>.
\<close>

record todo =
  todo_id :: int
  todo_text :: string
  todo_complete :: bool

section \<open>EventEmitter\<close>

text \<open>
  \<^verbatim>\<open>this.handlers\<close> is an object from event names to arrays of handlers. A handler is
  named by a value of type \<open>'h\<close>; what calling it does is given by \<open>call\<close>.
  \<^verbatim>\<open>emit\<close> returns at once when nothing is registered under the name, and otherwise
  calls every handler in registration order with the same parameters.
\<close>

type_synonym 'h handlers = "string \<rightharpoonup> 'h list"

definition emit :: "('h \<Rightarrow> 'p \<Rightarrow> 's \<Rightarrow> 's) \<Rightarrow> 'h handlers \<Rightarrow> string \<Rightarrow> 'p \<Rightarrow> 's \<Rightarrow> 's" where
  "emit call hs eventName params s =
     (case hs eventName of
        None \<Rightarrow> s
      | Some l \<Rightarrow> fold (\<lambda>handler. call handler params) l s)"

definition addHandler :: "string \<Rightarrow> 'h \<Rightarrow> 'h handlers \<Rightarrow> 'h handlers" where
  "addHandler eventName handler hs =
     hs(eventName \<mapsto> (case hs eventName of None \<Rightarrow> [handler] | Some l \<Rightarrow> l @ [handler]))"

section \<open>The state of the application\<close>

text \<open>
  The children of the \<^verbatim>\<open>ul\<close> that \<^verbatim>\<open>displayTodos\<close> builds: the placeholder paragraph,
  or one row per task (the row's id, the checkbox's \<^verbatim>\<open>checked\<close>, the text of the span
  and whether it is struck through).
\<close>

datatype node = Paragraph string | ListItem int bool string bool

text \<open>
  The calls that leave the program, in program order: \<^verbatim>\<open>localStorage.setItem\<close> (in
  \<^verbatim>\<open>update\<close>) and \<^verbatim>\<open>console.log\<close> (the last statement of \<^verbatim>\<open>displayTodos\<close>).
\<close>

datatype effect = SetItem string string | ConsoleLog "todo list"

text \<open>The handlers the Controller registers: five on the View, one on the Model.\<close>

datatype view_handler =
  HandleAddTodo | HandleDeleteTodo | HandleEditTodo | HandleEditTodoComplete | HandleToggle

datatype model_handler = OnTodoListChanged

text \<open>
  What the handlers read from a native event: of \<^verbatim>\<open>event.target\<close> its
  \<^verbatim>\<open>className\<close>, \<^verbatim>\<open>type\<close> and \<^verbatim>\<open>innerText\<close>, and the number that
  \<^verbatim>\<open>parseInt(event.target.parentElement.id)\<close> yields (rows carry the id of their
  task, so this is an integer).
\<close>

record target =
  target_className :: string
  target_type :: string
  target_innerText :: string
  target_parentElement_id :: int

text \<open>
  One record for the three objects and the browser state they use. \<open>model_todos\<close> and
  \<open>model_handlers\<close> are the fields of the Model, \<open>view_handlers\<close>, \<open>view_input_value\<close>
  (\<^verbatim>\<open>this.input.value\<close>) and \<open>view_todoList\<close> those of the View,
  \<open>temporaryEditValue\<close> that of the Controller (\<open>None\<close> is \<^verbatim>\<open>undefined\<close>).
\<close>

record app =
  model_todos :: "todo list"
  model_handlers :: "model_handler handlers"
  view_handlers :: "view_handler handlers"
  view_input_value :: string
  view_todoList :: "node list"
  temporaryEditValue :: "string option"
  localStorage :: "string \<rightharpoonup> string"
  effects :: "effect list"

section \<open>View\<close>

text \<open>The names of the View's events, which the source gives through accessor methods.\<close>

definition addTodoEvent :: string where
  "addTodoEvent = ''addTodo''"

definition deleteTodoEvent :: string where
  "deleteTodoEvent = ''deleteTodo''"

definition editTodoEvent :: string where
  "editTodoEvent = ''editTodo''"

definition editTodoCompleteEvent :: string where
  "editTodoCompleteEvent = ''editTodoComplete''"

definition toggleEvent :: string where
  "toggleEvent = ''toggle''"

definition todoText :: "app \<Rightarrow> string" where
  "todoText s = view_input_value s"

definition resetInput :: "app \<Rightarrow> app" where
  "resetInput s = s\<lparr>view_input_value := ''''\<rparr>"

definition displayTodos :: "todo list \<Rightarrow> app \<Rightarrow> app" where
  "displayTodos todos s =
     s\<lparr>view_todoList :=
         (if length todos = 0 then [Paragraph ''Nothing to do! Add a task?'']
          else map (\<lambda>todo. ListItem (todo_id todo) (todo_complete todo) (todo_text todo)
                              (todo_complete todo)) todos),
       effects := effects s @ [ConsoleLog todos]\<rparr>"

section \<open>Model\<close>

definition todoListChangedEvent :: string where
  "todoListChangedEvent = ''todoListChanged''"

definition onTodoListChanged :: "todo list \<Rightarrow> app \<Rightarrow> app" where
  "onTodoListChanged todos s = displayTodos todos s"

fun call_model_handler :: "model_handler \<Rightarrow> todo list \<Rightarrow> app \<Rightarrow> app" where
  "call_model_handler OnTodoListChanged todos s = onTodoListChanged todos s"

text \<open>
  \<^verbatim>\<open>JSON.stringify\<close> belongs to the platform; it is the parameter \<open>JSON_stringify\<close>
  of everything that reaches \<^verbatim>\<open>update\<close>.
\<close>

definition update :: "(todo list \<Rightarrow> string) \<Rightarrow> app \<Rightarrow> app" where
  "update JSON_stringify s =
     s\<lparr>localStorage := (localStorage s)(''todos'' \<mapsto> JSON_stringify (model_todos s)),
       effects := effects s @ [SetItem ''todos'' (JSON_stringify (model_todos s))]\<rparr>"

definition Model_emit :: "string \<Rightarrow> todo list \<Rightarrow> app \<Rightarrow> app" where
  "Model_emit eventName params s = emit call_model_handler (model_handlers s) eventName params s"

definition addTodo :: "(todo list \<Rightarrow> string) \<Rightarrow> todo \<Rightarrow> app \<Rightarrow> app" where
  "addTodo JSON_stringify todo s =
     (let s1 = s\<lparr>model_todos := model_todos s @ [todo]\<rparr>;
          s2 = update JSON_stringify s1
      in Model_emit todoListChangedEvent (model_todos s2) s2)"

definition editTodo :: "(todo list \<Rightarrow> string) \<Rightarrow> int \<Rightarrow> string \<Rightarrow> app \<Rightarrow> app" where
  "editTodo JSON_stringify ident updatedText s =
     (let s1 = s\<lparr>model_todos :=
                   map (\<lambda>todo. if todo_id todo = ident
                               then \<lparr>todo_id = todo_id todo, todo_text = updatedText,
                                     todo_complete = todo_complete todo\<rparr>
                               else todo) (model_todos s)\<rparr>;
          s2 = update JSON_stringify s1
      in Model_emit todoListChangedEvent (model_todos s2) s2)"

definition deleteTodo :: "(todo list \<Rightarrow> string) \<Rightarrow> int \<Rightarrow> app \<Rightarrow> app" where
  "deleteTodo JSON_stringify ident s =
     (let s1 = s\<lparr>model_todos := filter (\<lambda>todo. todo_id todo \<noteq> ident) (model_todos s)\<rparr>;
          s2 = update JSON_stringify s1
      in Model_emit todoListChangedEvent (model_todos s2) s2)"

definition toggleTodo :: "(todo list \<Rightarrow> string) \<Rightarrow> int \<Rightarrow> app \<Rightarrow> app" where
  "toggleTodo JSON_stringify ident s =
     (let s1 = s\<lparr>model_todos :=
                   map (\<lambda>todo. if todo_id todo = ident
                               then \<lparr>todo_id = todo_id todo, todo_text = todo_text todo,
                                     todo_complete = \<not> todo_complete todo\<rparr>
                               else todo) (model_todos s)\<rparr>;
          s2 = update JSON_stringify s1
      in Model_emit todoListChangedEvent (model_todos s2) s2)"

text \<open>
  The constructor reads the key \<^verbatim>\<open>todos\<close>. \<^verbatim>\<open>getItem\<close> yields \<^verbatim>\<open>null\<close> for a
  missing key, which \<^verbatim>\<open>JSON.parse\<close> turns into the text \<^verbatim>\<open>null\<close> before parsing.
  \<^verbatim>\<open>JSON.parse\<close> is the parameter \<open>JSON_parse\<close>: it throws a \<^verbatim>\<open>SyntaxError\<close>
  (\<open>Inl\<close>) or returns a value. Of the values only \<^verbatim>\<open>null\<close> and an array of tasks are
  represented, the latter being all that \<^verbatim>\<open>update\<close> ever writes; an array is truthy
  even when empty, so \<^verbatim>\<open>|| []\<close> replaces \<^verbatim>\<open>null\<close> only. The constructor has no
  \<^verbatim>\<open>try\<close>: the error leaves it.
\<close>

datatype error = SyntaxError

datatype parsed = Null | Todos "todo list"

definition Model_constructor ::
  "(string \<Rightarrow> error + parsed) \<Rightarrow> (string \<rightharpoonup> string) \<Rightarrow> error + todo list" where
  "Model_constructor JSON_parse storage =
     (case JSON_parse (case storage ''todos'' of None \<Rightarrow> ''null'' | Some v \<Rightarrow> v) of
        Inl e \<Rightarrow> Inl e
      | Inr Null \<Rightarrow> Inr []
      | Inr (Todos l) \<Rightarrow> Inr l)"

section \<open>Controller\<close>

text \<open>
  The new id is \<^verbatim>\<open>last.id + 1\<close>, an addition of JavaScript numbers, which are
  doubles. Here it is the addition of integers. The two agree when the last id \<open>n\<close>
  has \<open>- 2^53 \<le> n < 2^53\<close>; from \<open>2^53\<close> on the double does not grow by 1. From
  the empty list the ids are 1, 2, 3 and so on, one per submit, and stay in this range;
  an id outside it can only come from the store.
\<close>

definition handleAddTodo :: "(todo list \<Rightarrow> string) \<Rightarrow> target \<Rightarrow> app \<Rightarrow> app" where
  "handleAddTodo JSON_stringify event s =
     (if todoText s \<noteq> '''' then
        (let todo = \<lparr>todo_id = (if length (model_todos s) > 0
                                 then todo_id (model_todos s ! (length (model_todos s) - 1)) + 1
                                 else 1),
                     todo_text = todoText s,
                     todo_complete = False\<rparr>
         in resetInput (addTodo JSON_stringify todo s))
      else s)"

definition handleEditTodo :: "target \<Rightarrow> app \<Rightarrow> app" where
  "handleEditTodo event s =
     (if target_className event = ''editable''
      then s\<lparr>temporaryEditValue := Some (target_innerText event)\<rparr>
      else s)"

definition handleEditTodoComplete :: "(todo list \<Rightarrow> string) \<Rightarrow> target \<Rightarrow> app \<Rightarrow> app" where
  "handleEditTodoComplete JSON_stringify event s =
     (case temporaryEditValue s of
        None \<Rightarrow> s
      | Some v \<Rightarrow>
          if v \<noteq> '''' then
            (editTodo JSON_stringify (target_parentElement_id event) v s)
              \<lparr>temporaryEditValue := Some ''''\<rparr>
          else s)"

definition handleDeleteTodo :: "(todo list \<Rightarrow> string) \<Rightarrow> target \<Rightarrow> app \<Rightarrow> app" where
  "handleDeleteTodo JSON_stringify event s =
     (if target_className event = ''delete''
      then deleteTodo JSON_stringify (target_parentElement_id event) s
      else s)"

definition handleToggle :: "(todo list \<Rightarrow> string) \<Rightarrow> target \<Rightarrow> app \<Rightarrow> app" where
  "handleToggle JSON_stringify event s =
     (if target_type event = ''checkbox''
      then toggleTodo JSON_stringify (target_parentElement_id event) s
      else s)"

fun call_view_handler :: "(todo list \<Rightarrow> string) \<Rightarrow> view_handler \<Rightarrow> target \<Rightarrow> app \<Rightarrow> app" where
  "call_view_handler JSON_stringify HandleAddTodo event s = handleAddTodo JSON_stringify event s"
| "call_view_handler JSON_stringify HandleDeleteTodo event s = handleDeleteTodo JSON_stringify event s"
| "call_view_handler JSON_stringify HandleEditTodo event s = handleEditTodo event s"
| "call_view_handler JSON_stringify HandleEditTodoComplete event s =
     handleEditTodoComplete JSON_stringify event s"
| "call_view_handler JSON_stringify HandleToggle event s = handleToggle JSON_stringify event s"

definition Controller_constructor :: "app \<Rightarrow> app" where
  "Controller_constructor s =
     (let s1 = s\<lparr>view_handlers := addHandler addTodoEvent HandleAddTodo (view_handlers s)\<rparr>;
          s2 = s1\<lparr>view_handlers := addHandler deleteTodoEvent HandleDeleteTodo (view_handlers s1)\<rparr>;
          s3 = s2\<lparr>view_handlers := addHandler editTodoEvent HandleEditTodo (view_handlers s2)\<rparr>;
          s4 = s3\<lparr>view_handlers :=
                    addHandler editTodoCompleteEvent HandleEditTodoComplete (view_handlers s3)\<rparr>;
          s5 = s4\<lparr>view_handlers := addHandler toggleEvent HandleToggle (view_handlers s4)\<rparr>;
          s6 = s5\<lparr>model_handlers :=
                    addHandler todoListChangedEvent OnTodoListChanged (model_handlers s5)\<rparr>
      in onTodoListChanged (model_todos s6) s6)"

section \<open>The program and its events\<close>

text \<open>
  The last line of the script: \<^verbatim>\<open>new Controller(new Model(), new View())\<close>. The Model
  is built first, so a parse error ends the script before anything else exists. A new
  View has an empty input and an empty list element, and no handler yet.
\<close>

definition main :: "(string \<Rightarrow> error + parsed) \<Rightarrow> (string \<rightharpoonup> string) \<Rightarrow> error + app" where
  "main JSON_parse storage =
     (case Model_constructor JSON_parse storage of
        Inl e \<Rightarrow> Inl e
      | Inr l \<Rightarrow>
          Inr (Controller_constructor
                 \<lparr>model_todos = l, model_handlers = Map.empty, view_handlers = Map.empty,
                  view_input_value = '''', view_todoList = [], temporaryEditValue = None,
                  localStorage = storage, effects = []\<rparr>))"

text \<open>
  \<^verbatim>\<open>bindEvents\<close> binds five native events to \<^verbatim>\<open>emit\<close> with a fixed event name:
  \<^verbatim>\<open>submit\<close> on the form, and \<^verbatim>\<open>click\<close>, \<^verbatim>\<open>input\<close>, \<^verbatim>\<open>focusout\<close> and
  \<^verbatim>\<open>change\<close> on the list. Besides these the user can type into the input of the
  form, which changes its value and reaches no listener.
\<close>

datatype native = Submit | Click | Input | Focusout | Change

fun bindEvents :: "native \<Rightarrow> string" where
  "bindEvents Submit = addTodoEvent"
| "bindEvents Click = deleteTodoEvent"
| "bindEvents Input = editTodoEvent"
| "bindEvents Focusout = editTodoCompleteEvent"
| "bindEvents Change = toggleEvent"

datatype interaction = Typing string | Native native target

fun interact :: "(todo list \<Rightarrow> string) \<Rightarrow> interaction \<Rightarrow> app \<Rightarrow> app" where
  "interact JSON_stringify (Typing v) s = s\<lparr>view_input_value := v\<rparr>"
| "interact JSON_stringify (Native n event) s =
     emit (call_view_handler JSON_stringify) (view_handlers s) (bindEvents n) event s"

definition interactions :: "(todo list \<Rightarrow> string) \<Rightarrow> interaction list \<Rightarrow> app \<Rightarrow> app" where
  "interactions JSON_stringify is s = fold (interact JSON_stringify) is s"

section \<open>Notions used in the statements\<close>

text \<open>The ids increase strictly along the list.\<close>

definition ids_increasing :: "app \<Rightarrow> bool" where
  "ids_increasing s = sorted_wrt (<) (map todo_id (model_todos s))"

text \<open>
  The ids to which JavaScript adds 1 exactly: for these \<^verbatim>\<open>id + 1\<close> in the source is
  the integer that the model computes.
\<close>

definition increments_exactly :: "int \<Rightarrow> bool" where
  "increments_exactly n = (- (2 ^ 53) \<le> n \<and> n < 2 ^ 53)"



section \<open>Concrete inputs\<close>

text \<open>
  For running the model on concrete inputs the two platform functions need values.
  \<open>stringify\<close> writes a list of tasks as \<^verbatim>\<open>JSON.stringify\<close> does when the texts need
  no escaping; \<open>parse_fragment\<close> is \<^verbatim>\<open>JSON.parse\<close> on the texts \<^verbatim>\<open>null\<close> and
  \<^verbatim>\<open>[]\<close> and on texts that are not JSON, and is used on no other text. No theorem
  below depends on what they return elsewhere.
\<close>

fun digits :: "nat \<Rightarrow> string" where
  "digits n =
     (if n < 10 then [''0123456789'' ! n]
      else digits (n div 10) @ [''0123456789'' ! (n mod 10)])"

declare digits.simps [simp del]

definition stringify_todo :: "todo \<Rightarrow> string" where
  \<open>stringify_todo t =
     ''{"id":'' @ (if todo_id t < 0 then ''-'' else '''') @ digits (nat \<bar>todo_id t\<bar>) @
     '',"text":"'' @ todo_text t @
     ''","complete":'' @ (if todo_complete t then ''true'' else ''false'') @ ''}''\<close>

fun commas :: "string list \<Rightarrow> string" where
  "commas [] = ''''"
| "commas [x] = x"
| "commas (x # y # zs) = x @ '','' @ commas (y # zs)"

definition stringify :: "todo list \<Rightarrow> string" where
  "stringify todos = ''['' @ commas (map stringify_todo todos) @ '']''"

definition parse_fragment :: "string \<Rightarrow> error + parsed" where
  "parse_fragment v =
     (if v = ''null'' then Inr Null
      else if v = ''[]'' then Inr (Todos [])
      else Inl SyntaxError)"

text \<open>
  The objects before the Controller is built, with a given list in the Model, and the
  program once it is built: \<open>started\<close> begins with the empty list.
\<close>

definition constructed :: "todo list \<Rightarrow> app" where
  "constructed l =
     \<lparr>model_todos = l, model_handlers = Map.empty, view_handlers = Map.empty,
      view_input_value = '''', view_todoList = [], temporaryEditValue = None,
      localStorage = Map.empty, effects = []\<rparr>"

definition started :: app where
  "started = Controller_constructor (constructed [])"

text \<open>A list whose ids do not increase, and a list in which two tasks bear one id.\<close>

definition started_out_of_order :: app where
  "started_out_of_order =
     Controller_constructor
       (constructed [\<lparr>todo_id = 5, todo_text = ''a'', todo_complete = False\<rparr>,
                     \<lparr>todo_id = 2, todo_text = ''b'', todo_complete = False\<rparr>])"

definition started_with_duplicate :: app where
  "started_with_duplicate =
     Controller_constructor
       (constructed [\<lparr>todo_id = 1, todo_text = ''a'', todo_complete = False\<rparr>,
                     \<lparr>todo_id = 1, todo_text = ''b'', todo_complete = True\<rparr>])"

text \<open>
  The targets of the native events: the form, and in the row of a task its delete
  button, its checkbox and its editable span showing a text. An element without a
  \<^verbatim>\<open>type\<close> has the empty text here; like \<^verbatim>\<open>undefined\<close> it differs from
  \<^verbatim>\<open>checkbox\<close>.
\<close>

definition form :: target where
  "form = \<lparr>target_className = '''', target_type = '''', target_innerText = '''',
           target_parentElement_id = 0\<rparr>"

definition delete_button :: "int \<Rightarrow> target" where
  "delete_button i = \<lparr>target_className = ''delete'', target_type = ''submit'',
                      target_innerText = ''Delete'', target_parentElement_id = i\<rparr>"

definition checkbox :: "int \<Rightarrow> target" where
  "checkbox i = \<lparr>target_className = '''', target_type = ''checkbox'',
                 target_innerText = '''', target_parentElement_id = i\<rparr>"

definition span :: "int \<Rightarrow> string \<Rightarrow> target" where
  "span i v = \<lparr>target_className = ''editable'', target_type = '''',
               target_innerText = v, target_parentElement_id = i\<rparr>"

section \<open>What each operation does to the fields\<close>

lemma fold_call_model_handler:
  "model_todos (fold (\<lambda>h. call_model_handler h p) l s) = model_todos s \<and>
   model_handlers (fold (\<lambda>h. call_model_handler h p) l s) = model_handlers s \<and>
   view_handlers (fold (\<lambda>h. call_model_handler h p) l s) = view_handlers s \<and>
   view_input_value (fold (\<lambda>h. call_model_handler h p) l s) = view_input_value s \<and>
   temporaryEditValue (fold (\<lambda>h. call_model_handler h p) l s) = temporaryEditValue s \<and>
   localStorage (fold (\<lambda>h. call_model_handler h p) l s) = localStorage s \<and>
   effects (fold (\<lambda>h. call_model_handler h p) l s) =
     effects s @ replicate (length l) (ConsoleLog p)"
proof (induction l arbitrary: s)
  case Nil
  show ?case by simp
next
  case (Cons h l)
  have step: "call_model_handler h p s = displayTodos p s"
    by (cases h) (simp add: onTodoListChanged_def)
  show ?case
    by (simp add: Cons.IH step displayTodos_def replicate_app_Cons_same)
qed

lemma Model_emit_frame:
  "model_todos (Model_emit n p s) = model_todos s"
  "model_handlers (Model_emit n p s) = model_handlers s"
  "view_handlers (Model_emit n p s) = view_handlers s"
  "view_input_value (Model_emit n p s) = view_input_value s"
  "temporaryEditValue (Model_emit n p s) = temporaryEditValue s"
  "localStorage (Model_emit n p s) = localStorage s"
  by (simp_all add: Model_emit_def emit_def fold_call_model_handler split: option.splits)


lemma update_frame:
  "model_todos (update J s) = model_todos s"
  "model_handlers (update J s) = model_handlers s"
  "view_handlers (update J s) = view_handlers s"
  "view_input_value (update J s) = view_input_value s"
  "temporaryEditValue (update J s) = temporaryEditValue s"
  "view_todoList (update J s) = view_todoList s"
  by (simp_all add: update_def)

lemma addTodo_todos: "model_todos (addTodo J t s) = model_todos s @ [t]"
  by (simp add: addTodo_def Let_def Model_emit_frame update_frame)

lemma editTodo_todos:
  "model_todos (editTodo J i u s) =
     map (\<lambda>t. if todo_id t = i then t\<lparr>todo_text := u\<rparr> else t) (model_todos s)"
  by (simp add: editTodo_def Let_def Model_emit_frame update_frame)

lemma deleteTodo_todos:
  "model_todos (deleteTodo J i s) = filter (\<lambda>t. todo_id t \<noteq> i) (model_todos s)"
  by (simp add: deleteTodo_def Let_def Model_emit_frame update_frame)

lemma toggleTodo_todos:
  "model_todos (toggleTodo J i s) =
     map (\<lambda>t. if todo_id t = i then t\<lparr>todo_complete := \<not> todo_complete t\<rparr> else t)
       (model_todos s)"
  by (simp add: toggleTodo_def Let_def Model_emit_frame update_frame)

lemma mutation_model_handlers:
  "model_handlers (addTodo J t s) = model_handlers s"
  "model_handlers (editTodo J i u s) = model_handlers s"
  "model_handlers (deleteTodo J i s) = model_handlers s"
  "model_handlers (toggleTodo J i s) = model_handlers s"
  by (simp_all add: addTodo_def editTodo_def deleteTodo_def toggleTodo_def Let_def
        Model_emit_frame update_frame)

lemma handleAddTodo_todos:
  "model_todos (handleAddTodo J ev s) =
     (if view_input_value s = '''' then model_todos s
      else model_todos s @
           [\<lparr>todo_id = (if model_todos s = [] then 1 else todo_id (last (model_todos s)) + 1),
             todo_text = view_input_value s, todo_complete = False\<rparr>])"
  by (simp add: handleAddTodo_def todoText_def resetInput_def addTodo_todos Let_def
        last_conv_nth)

lemma handleEditTodo_todos: "model_todos (handleEditTodo ev s) = model_todos s"
  by (simp add: handleEditTodo_def)

lemma handleEditTodoComplete_todos:
  "model_todos (handleEditTodoComplete J ev s) =
     (case temporaryEditValue s of
        None \<Rightarrow> model_todos s
      | Some v \<Rightarrow>
          if v = '''' then model_todos s
          else map (\<lambda>t. if todo_id t = target_parentElement_id ev
                         then t\<lparr>todo_text := v\<rparr> else t) (model_todos s))"
  by (simp add: handleEditTodoComplete_def editTodo_todos split: option.splits)

lemma handleDeleteTodo_todos:
  "model_todos (handleDeleteTodo J ev s) =
     (if target_className ev = ''delete''
      then filter (\<lambda>t. todo_id t \<noteq> target_parentElement_id ev) (model_todos s)
      else model_todos s)"
  by (simp add: handleDeleteTodo_def deleteTodo_todos)

lemma handleToggle_todos:
  "model_todos (handleToggle J ev s) =
     (if target_type ev = ''checkbox''
      then map (\<lambda>t. if todo_id t = target_parentElement_id ev
                     then t\<lparr>todo_complete := \<not> todo_complete t\<rparr> else t) (model_todos s)
      else model_todos s)"
  by (simp add: handleToggle_def toggleTodo_todos)

lemma call_view_handler_model_handlers:
  "model_handlers (call_view_handler J h ev s) = model_handlers s"
  by (cases h)
    (simp_all add: handleAddTodo_def handleDeleteTodo_def handleEditTodo_def
       handleEditTodoComplete_def handleToggle_def resetInput_def Let_def
       mutation_model_handlers split: option.splits)

section \<open>Invariants of the event loop\<close>

text \<open>
  A property of the state that every handler and every keystroke in the input keeps
  holds after any sequence of events, whatever handlers the View has registered.
\<close>

lemma interactions_invariant:
  assumes handler: "\<And>h ev s. Q s \<Longrightarrow> Q (call_view_handler J h ev s)"
    and typing: "\<And>v s. Q s \<Longrightarrow> Q (s\<lparr>view_input_value := v\<rparr>)"
    and start: "Q s"
  shows "Q (interactions J evs s)"
proof -
  have handlers: "Q (fold (\<lambda>h. call_view_handler J h ev) l s)" if "Q s" for l ev s
    using that by (induction l arbitrary: s) (simp_all add: handler)
  have step: "Q (interact J e s)" if "Q s" for e s
    using that by (cases e) (simp_all add: typing emit_def handlers split: option.splits)
  show ?thesis
    unfolding interactions_def using start
    by (induction evs arbitrary: s) (simp_all add: step)
qed

lemma interactions_model_handlers:
  "model_handlers (interactions J evs s) = model_handlers s"
proof -
  have "(\<lambda>s'. model_handlers s' = model_handlers s) (interactions J evs s)"
    by (rule interactions_invariant) (simp_all add: call_view_handler_model_handlers)
  then show ?thesis by simp
qed

lemma Controller_constructor_wired:
  assumes "model_handlers s = Map.empty"
  shows "model_handlers (Controller_constructor s) ''todoListChanged'' = Some [OnTodoListChanged]"
  using assms
  by (simp add: Controller_constructor_def Let_def addHandler_def onTodoListChanged_def
      displayTodos_def todoListChangedEvent_def)

lemma main_wired:
  assumes "main JSON_parse storage = Inr s"
  shows "model_handlers (interactions J evs s) ''todoListChanged'' = Some [OnTodoListChanged]"
proof -
  from assms obtain l where
    "s = Controller_constructor
           \<lparr>model_todos = l, model_handlers = Map.empty, view_handlers = Map.empty,
            view_input_value = '''', view_todoList = [], temporaryEditValue = None,
            localStorage = storage, effects = []\<rparr>"
    by (auto simp: main_def split: sum.splits)
  then show ?thesis
    by (simp add: interactions_model_handlers Controller_constructor_wired)
qed

subsection \<open>The ids increase along the list\<close>

lemma sorted_wrt_less_last:
  fixes xs :: "int list"
  assumes "sorted_wrt (<) xs" "x \<in> set xs"
  shows "x \<le> xs ! (length xs - 1)"
proof -
  from assms(2) obtain i where i: "i < length xs" "xs ! i = x"
    by (auto simp: in_set_conv_nth)
  show ?thesis
  proof (cases "i = length xs - 1")
    case True
    with i show ?thesis by simp
  next
    case False
    with i have "i < length xs - 1" "length xs - 1 < length xs" by auto
    with assms(1) have "xs ! i < xs ! (length xs - 1)"
      by (simp add: sorted_wrt_iff_nth_less)
    with i show ?thesis by simp
  qed
qed

lemma last_id_is_Max:
  assumes "ids_increasing s" "model_todos s \<noteq> []"
  shows "todo_id (last (model_todos s)) = Max (set (map todo_id (model_todos s)))"
proof -
  let ?xs = "map todo_id (model_todos s)"
  have last: "todo_id (last (model_todos s)) = ?xs ! (length ?xs - 1)"
    using assms(2) by (simp add: last_conv_nth)
  have "Max (set ?xs) = ?xs ! (length ?xs - 1)"
  proof (rule Max_eqI)
    show "finite (set ?xs)" by simp
    show "y \<le> ?xs ! (length ?xs - 1)" if "y \<in> set ?xs" for y
      using assms(1) that unfolding ids_increasing_def by (rule sorted_wrt_less_last)
    show "?xs ! (length ?xs - 1) \<in> set ?xs"
      using assms(2) by (intro nth_mem) simp
  qed
  with last show ?thesis by simp
qed

lemma handleAddTodo_increasing:
  assumes "ids_increasing s"
  shows "ids_increasing (handleAddTodo J ev s)"
proof -
  have "\<forall>x\<in>set (model_todos s). todo_id x < todo_id (last (model_todos s)) + 1"
    if nonempty: "model_todos s \<noteq> []"
  proof
    fix x assume "x \<in> set (model_todos s)"
    then have "todo_id x \<in> set (map todo_id (model_todos s))" by simp
    then have "todo_id x \<le> Max (set (map todo_id (model_todos s)))" by simp
    then show "todo_id x < todo_id (last (model_todos s)) + 1"
      using last_id_is_Max [OF assms nonempty] by simp
  qed
  then show ?thesis
    using assms by (auto simp: ids_increasing_def handleAddTodo_todos sorted_wrt_append)
qed

lemma edit_keeps_ids:
  "todo_id \<circ> (\<lambda>t. if todo_id t = i then t\<lparr>todo_text := v\<rparr> else t) = todo_id"
  by (rule ext) simp

lemma toggle_keeps_ids:
  "todo_id \<circ> (\<lambda>t. if todo_id t = i then t\<lparr>todo_complete := \<not> todo_complete t\<rparr> else t) =
     todo_id"
  by (rule ext) simp

lemma delete_ids:
  "map todo_id (filter (\<lambda>t. todo_id t \<noteq> i) l) = filter (\<lambda>x. x \<noteq> i) (map todo_id l)"
  by (induction l) simp_all

lemma call_view_handler_increasing:
  assumes "ids_increasing s"
  shows "ids_increasing (call_view_handler J h ev s)"
proof (cases h)
  case HandleAddTodo
  with assms show ?thesis by (simp add: handleAddTodo_increasing)
next
  case HandleDeleteTodo
  with assms show ?thesis
    by (simp add: ids_increasing_def handleDeleteTodo_todos delete_ids sorted_wrt_filter)
next
  case HandleEditTodo
  with assms show ?thesis by (simp add: ids_increasing_def handleEditTodo_todos)
next
  case HandleEditTodoComplete
  with assms show ?thesis
    by (simp add: ids_increasing_def handleEditTodoComplete_todos edit_keeps_ids
        split: option.splits)
next
  case HandleToggle
  with assms show ?thesis
    by (simp add: ids_increasing_def handleToggle_todos toggle_keeps_ids)
qed

lemma interactions_increasing:
  assumes "ids_increasing s"
  shows "ids_increasing (interactions J evs s)"
proof (rule interactions_invariant)
  show "ids_increasing (call_view_handler J h ev s)" if "ids_increasing s" for h ev s
    using that by (rule call_view_handler_increasing)
  show "ids_increasing (s\<lparr>view_input_value := v\<rparr>)" if "ids_increasing s" for v s
    using that by (simp add: ids_increasing_def)
  show "ids_increasing s" by (rule assms)
qed

section \<open>Running the model\<close>

lemmas run_defs = interactions_def emit_def started_def started_out_of_order_def
  started_with_duplicate_def constructed_def Controller_constructor_def
  Let_def addHandler_def onTodoListChanged_def displayTodos_def todoListChangedEvent_def
  handleAddTodo_def handleEditTodo_def handleEditTodoComplete_def handleDeleteTodo_def
  handleToggle_def addTodo_def editTodo_def deleteTodo_def toggleTodo_def update_def
  Model_emit_def todoText_def resetInput_def form_def delete_button_def checkbox_def span_def
  addTodoEvent_def deleteTodoEvent_def editTodoEvent_def editTodoCompleteEvent_def toggleEvent_def

section \<open>What a mutation writes and whom it notifies\<close>








section \<open>Texts are not empty\<close>

lemma call_view_handler_texts:
  assumes "\<forall>t\<in>set (model_todos s). todo_text t \<noteq> ''''"
  shows "\<forall>t\<in>set (model_todos (call_view_handler J h ev s)). todo_text t \<noteq> ''''"
proof (cases h)
  case HandleAddTodo
  with assms show ?thesis by (simp add: handleAddTodo_todos)
next
  case HandleDeleteTodo
  with assms show ?thesis by (simp add: handleDeleteTodo_todos)
next
  case HandleEditTodo
  with assms show ?thesis by (simp add: handleEditTodo_todos)
next
  case HandleEditTodoComplete
  with assms show ?thesis
    by (auto simp: handleEditTodoComplete_todos split: option.splits)
next
  case HandleToggle
  with assms show ?thesis by (auto simp: handleToggle_todos)
qed

lemma interactions_texts:
  assumes "\<forall>t\<in>set (model_todos s). todo_text t \<noteq> ''''"
  shows "\<forall>t\<in>set (model_todos (interactions J evs s)). todo_text t \<noteq> ''''"
proof (rule interactions_invariant)
  show "\<forall>t\<in>set (model_todos (call_view_handler J h ev s)). todo_text t \<noteq> ''''"
    if "\<forall>t\<in>set (model_todos s). todo_text t \<noteq> ''''" for h ev s
    using that by (rule call_view_handler_texts)
  show "\<forall>t\<in>set (model_todos (s\<lparr>view_input_value := v\<rparr>)). todo_text t \<noteq> ''''"
    if "\<forall>t\<in>set (model_todos s). todo_text t \<noteq> ''''" for v s
    using that by simp
  show "\<forall>t\<in>set (model_todos s). todo_text t \<noteq> ''''" by (rule assms)
qed

section \<open>An id that no task bears\<close>


lemma unmatched_filter:
  assumes "i \<notin> todo_id ` set l"
  shows "filter (\<lambda>todo. todo_id todo \<noteq> i) l = l"
  using assms by (auto simp: filter_id_conv)

section \<open>The claims\<close>

subsection \<open>C1: ids are unique\<close>

text \<open>
  C1. Starting from the empty list, after any sequence of events handled by the
  Controller (typing and submitting, editing, toggling, deleting, in any order and with
  any targets) the ids of the tasks in the Model's list are pairwise distinct. The
  reason is that the ids increase strictly along the list: a new task is appended with
  the id of the last task plus one, deletion keeps the order of the rest, and editing
  and toggling keep every id.
\<close>

theorem ids_pairwise_distinct:
  assumes "model_todos s = []"
  shows "distinct (map todo_id (model_todos (interactions JSON_stringify evs s)))"
proof -
  have "ids_increasing s"
    using assms by (simp add: ids_increasing_def)
  then have "ids_increasing (interactions JSON_stringify evs s)"
    by (rule interactions_increasing)
  then show ?thesis
    by (simp add: ids_increasing_def strict_sorted_iff)
qed

text \<open>
  A run: add \<^verbatim>\<open>a\<close> and \<^verbatim>\<open>b\<close>, delete the first, add \<^verbatim>\<open>c\<close>. The ids left are
  2 and 3.
\<close>

theorem ids_pairwise_distinct_witness:
  "model_todos started = [] \<and>
   map todo_id (model_todos (interactions stringify
     [Typing ''a'', Native Submit form, Typing ''b'', Native Submit form,
      Native Click (delete_button 1), Typing ''c'', Native Submit form] started)) = [2, 3] \<and>
   distinct (map todo_id (model_todos (interactions stringify
     [Typing ''a'', Native Submit form, Typing ''b'', Native Submit form,
      Native Click (delete_button 1), Typing ''c'', Native Submit form] started)))"
proof -
  have empty: "model_todos started = []"
    by (simp add: run_defs)
  have ids: "map todo_id (model_todos (interactions stringify
     [Typing ''a'', Native Submit form, Typing ''b'', Native Submit form,
      Native Click (delete_button 1), Typing ''c'', Native Submit form] started)) = [2, 3]"
    by (simp add: run_defs)
  from empty ids ids_pairwise_distinct [OF empty] show ?thesis
    by blast
qed

subsection \<open>C2: the id of a new task\<close>

text \<open>
  C2, as the code has it. When the input is not empty, and the id of the last task, if
  there is one, is an id to which JavaScript adds 1 exactly (from \<open>- 2^53\<close> to below
  \<open>2^53\<close>), the add handler appends one task whose id is the id of the last task of
  the list plus 1, and 1 when the list is empty; its text is the input and it is not
  complete. The handler reads the last element and does not scan the list. Where the
  ids increase along the list the last id is the maximum, so the new id is the maximum
  plus 1; every list built from the empty list through the handlers is of this kind.
\<close>

theorem new_id_is_last_id_plus_one:
  assumes "view_input_value s \<noteq> ''''"
    and "model_todos s \<noteq> [] \<longrightarrow> increments_exactly (todo_id (last (model_todos s)))"
  shows "model_todos (handleAddTodo JSON_stringify event s) =
           model_todos s @
           [\<lparr>todo_id = (if model_todos s = [] then 1 else todo_id (last (model_todos s)) + 1),
             todo_text = view_input_value s, todo_complete = False\<rparr>] \<and>
         (ids_increasing s \<and> model_todos s \<noteq> [] \<longrightarrow>
            todo_id (last (model_todos s)) = Max (set (map todo_id (model_todos s)))) \<and>
         (model_todos s0 = [] \<longrightarrow> ids_increasing (interactions JSON_stringify evs s0))"
proof (intro conjI impI)
  show "model_todos (handleAddTodo JSON_stringify event s) =
           model_todos s @
           [\<lparr>todo_id = (if model_todos s = [] then 1 else todo_id (last (model_todos s)) + 1),
             todo_text = view_input_value s, todo_complete = False\<rparr>]"
    using assms(1) by (simp add: handleAddTodo_todos)
  show "todo_id (last (model_todos s)) = Max (set (map todo_id (model_todos s)))"
    if "ids_increasing s \<and> model_todos s \<noteq> []"
    using that by (simp add: last_id_is_Max)
  show "ids_increasing (interactions JSON_stringify evs s0)" if "model_todos s0 = []"
    using that by (intro interactions_increasing) (simp add: ids_increasing_def)
qed

text \<open>
  With the task 2 left in the list and \<^verbatim>\<open>c\<close> typed, the new task gets the id 3, which
  is the last id, and the greatest, plus 1.
\<close>

theorem new_id_is_last_id_plus_one_witness:
  "view_input_value (interactions stringify
     [Typing ''a'', Native Submit form, Typing ''b'', Native Submit form,
      Native Click (delete_button 1), Typing ''c''] started) \<noteq> '''' \<and>
   increments_exactly (todo_id (last (model_todos (interactions stringify
     [Typing ''a'', Native Submit form, Typing ''b'', Native Submit form,
      Native Click (delete_button 1), Typing ''c''] started)))) \<and>
   map todo_id (model_todos (interactions stringify
     [Typing ''a'', Native Submit form, Typing ''b'', Native Submit form,
      Native Click (delete_button 1), Typing ''c''] started)) = [2] \<and>
   map todo_id (model_todos (handleAddTodo stringify form (interactions stringify
     [Typing ''a'', Native Submit form, Typing ''b'', Native Submit form,
      Native Click (delete_button 1), Typing ''c''] started))) = [2, 3] \<and>
   todo_id (last (model_todos (interactions stringify
     [Typing ''a'', Native Submit form, Typing ''b'', Native Submit form,
      Native Click (delete_button 1), Typing ''c''] started))) =
   Max (set (map todo_id (model_todos (interactions stringify
     [Typing ''a'', Native Submit form, Typing ''b'', Native Submit form,
      Native Click (delete_button 1), Typing ''c''] started))))"
proof -
  let ?s = "interactions stringify
     [Typing ''a'', Native Submit form, Typing ''b'', Native Submit form,
      Native Click (delete_button 1), Typing ''c''] started"
  have typed: "view_input_value ?s \<noteq> ''''"
    by (simp add: run_defs)
  have ids: "map todo_id (model_todos ?s) = [2]"
    by (simp add: run_defs)
  have start: "model_todos started = []"
    by (simp add: run_defs)
  have "todo_id (last (model_todos ?s)) = 2"
    by (simp add: run_defs)
  then have exact: "increments_exactly (todo_id (last (model_todos ?s)))"
    by (simp add: increments_exactly_def)
  then have bounded:
    "model_todos ?s \<noteq> [] \<longrightarrow> increments_exactly (todo_id (last (model_todos ?s)))"
    by blast
  note new_id_is_last_id_plus_one [OF typed bounded, of stringify form started
      "[Typing ''a'', Native Submit form, Typing ''b'', Native Submit form,
        Native Click (delete_button 1), Typing ''c'']"]
  with ids start have
    "map todo_id (model_todos (handleAddTodo stringify form ?s)) = [2, 3]"
    "todo_id (last (model_todos ?s)) = Max (set (map todo_id (model_todos ?s)))"
    by (auto simp: last_map [symmetric] simp del: last_map)
  with typed exact ids show ?thesis by blast
qed

text \<open>
  C2 as stated fails where the ids do not increase along the list, as in a stored list
  with the ids 5 and 2: the new task gets the id 3, and the maximum plus 1 is 6.
\<close>

theorem new_id_is_max_plus_one_counterexample:
  "map todo_id (model_todos started_out_of_order) = [5, 2] \<and>
   map todo_id (model_todos (interactions stringify
     [Typing ''c'', Native Submit form] started_out_of_order)) = [5, 2, 3] \<and>
   Max (set (map todo_id (model_todos started_out_of_order))) + 1 = 6"
  by (simp add: run_defs)

subsection \<open>C3: write, then notify once\<close>



subsection \<open>C4: empty input\<close>

text \<open>
  C4, as the code has it. Creation and edit reject the empty text at the handlers: with
  an empty input the add handler changes nothing, and with no captured text, or an
  empty one, the edit-commit handler changes nothing; no error arises in either. So
  whenever no task text in the list is empty, none is after any sequence of events, and
  in particular from the empty list. Both tests are the truthiness of the text, which
  only the empty text fails: a text of white space alone is taken like any other.
\<close>

theorem empty_text_is_rejected:
  "(view_input_value s = '''' \<longrightarrow> handleAddTodo JSON_stringify event s = s) \<and>
   (temporaryEditValue s = None \<or> temporaryEditValue s = Some '''' \<longrightarrow>
      handleEditTodoComplete JSON_stringify event s = s) \<and>
   ((\<forall>t\<in>set (model_todos s). todo_text t \<noteq> '''') \<longrightarrow>
      (\<forall>t\<in>set (model_todos (interactions JSON_stringify evs s)). todo_text t \<noteq> ''''))"
  by (auto simp: handleAddTodo_def todoText_def handleEditTodoComplete_def
      dest: interactions_texts)

text \<open>
  In the program as started the input is empty and nothing is captured, so both
  handlers leave it as it is; after adding \<^verbatim>\<open>a\<close> and editing it to \<^verbatim>\<open>bb\<close> the one
  text is \<^verbatim>\<open>bb\<close>.
\<close>

theorem empty_text_is_rejected_witness:
  "view_input_value started = '''' \<and>
   handleAddTodo stringify form started = started \<and>
   temporaryEditValue started = None \<and>
   handleEditTodoComplete stringify (span 1 '''') started = started \<and>
   map todo_text (model_todos (interactions stringify
     [Typing ''a'', Native Submit form, Native Input (span 1 ''bb''),
      Native Focusout (span 1 ''bb'')] started)) = [''bb''] \<and>
   '''' \<notin> todo_text ` set (model_todos (interactions stringify
     [Typing ''a'', Native Submit form, Native Input (span 1 ''bb''),
      Native Focusout (span 1 ''bb'')] started))"
proof -
  have input: "view_input_value started = ''''"
    and captured: "temporaryEditValue started = None"
    and start: "model_todos started = []"
    by (simp_all add: run_defs)
  have texts: "map todo_text (model_todos (interactions stringify
     [Typing ''a'', Native Submit form, Native Input (span 1 ''bb''),
      Native Focusout (span 1 ''bb'')] started)) = [''bb'']"
    by (simp add: run_defs)
  have add: "handleAddTodo stringify form started = started"
    using empty_text_is_rejected [of started stringify form] input by blast
  have commit: "handleEditTodoComplete stringify (span 1 '''') started = started"
    using empty_text_is_rejected [of started stringify "span 1 ''''"] captured by blast
  have "\<forall>t\<in>set (model_todos (interactions stringify
     [Typing ''a'', Native Submit form, Native Input (span 1 ''bb''),
      Native Focusout (span 1 ''bb'')] started)). todo_text t \<noteq> ''''"
    using empty_text_is_rejected [of started stringify form] start by simp
  then have "'''' \<notin> todo_text ` set (model_todos (interactions stringify
     [Typing ''a'', Native Submit form, Native Input (span 1 ''bb''),
      Native Focusout (span 1 ''bb'')] started))"
    by force
  with input add captured commit texts show ?thesis by blast
qed

text \<open>
  C4 as stated fails for a text of white space alone: typing one space and submitting
  creates a task whose text is that space, and editing the task \<^verbatim>\<open>a\<close> to one space
  stores the space.
\<close>

theorem white_space_is_rejected_counterexample:
  "map todo_text (model_todos (interactions stringify
     [Typing '' '', Native Submit form] started)) = ['' ''] \<and>
   map todo_text (model_todos (interactions stringify
     [Typing ''a'', Native Submit form, Native Input (span 1 '' ''),
      Native Focusout (span 1 '' '')] started)) = ['' '']"
  by (simp add: run_defs)

subsection \<open>C5: an id that is not in the list\<close>



subsection \<open>C6: what an edit changes\<close>

text \<open>
  C6. \<^verbatim>\<open>editTodo(id, t)\<close> keeps the length of the list and the place of every task.
  At every place the id and the \<^verbatim>\<open>complete\<close> field of the task are what they were;
  a task bearing the given id has the text \<^verbatim>\<open>t\<close> afterwards, and a task bearing
  another id is the same task as before, in all its fields. This holds for every list,
  also when several tasks bear the id: each of them gets the text.
\<close>

theorem editTodo_changes_only_the_text:
  "length (model_todos (editTodo JSON_stringify ident updatedText s)) = length (model_todos s) \<and>
   (\<forall>k<length (model_todos s).
      todo_id (model_todos (editTodo JSON_stringify ident updatedText s) ! k) =
        todo_id (model_todos s ! k) \<and>
      todo_complete (model_todos (editTodo JSON_stringify ident updatedText s) ! k) =
        todo_complete (model_todos s ! k) \<and>
      (todo_id (model_todos s ! k) = ident \<longrightarrow>
         todo_text (model_todos (editTodo JSON_stringify ident updatedText s) ! k) = updatedText) \<and>
      (todo_id (model_todos s ! k) \<noteq> ident \<longrightarrow>
         model_todos (editTodo JSON_stringify ident updatedText s) ! k = model_todos s ! k))"
  by (simp add: editTodo_todos)

text \<open>
  In the list with the tasks 1 (done) and 2, editing 2 gives it the new text and leaves
  the task 1 as it was.
\<close>

theorem editTodo_changes_only_the_text_witness:
  "model_todos (interactions stringify
     [Typing ''a'', Native Submit form, Typing ''b'', Native Submit form,
      Native Change (checkbox 1)] started) =
     [\<lparr>todo_id = 1, todo_text = ''a'', todo_complete = True\<rparr>,
      \<lparr>todo_id = 2, todo_text = ''b'', todo_complete = False\<rparr>] \<and>
   length (model_todos (editTodo stringify 2 ''bb'' (interactions stringify
     [Typing ''a'', Native Submit form, Typing ''b'', Native Submit form,
      Native Change (checkbox 1)] started))) = 2 \<and>
   model_todos (editTodo stringify 2 ''bb'' (interactions stringify
     [Typing ''a'', Native Submit form, Typing ''b'', Native Submit form,
      Native Change (checkbox 1)] started)) ! 0 =
     \<lparr>todo_id = 1, todo_text = ''a'', todo_complete = True\<rparr> \<and>
   todo_id (model_todos (editTodo stringify 2 ''bb'' (interactions stringify
     [Typing ''a'', Native Submit form, Typing ''b'', Native Submit form,
      Native Change (checkbox 1)] started)) ! 1) = 2 \<and>
   todo_text (model_todos (editTodo stringify 2 ''bb'' (interactions stringify
     [Typing ''a'', Native Submit form, Typing ''b'', Native Submit form,
      Native Change (checkbox 1)] started)) ! 1) = ''bb'' \<and>
   todo_complete (model_todos (editTodo stringify 2 ''bb'' (interactions stringify
     [Typing ''a'', Native Submit form, Typing ''b'', Native Submit form,
      Native Change (checkbox 1)] started)) ! 1) = False"
proof -
  let ?s = "interactions stringify
     [Typing ''a'', Native Submit form, Typing ''b'', Native Submit form,
      Native Change (checkbox 1)] started"
  have list: "model_todos ?s =
     [\<lparr>todo_id = 1, todo_text = ''a'', todo_complete = True\<rparr>,
      \<lparr>todo_id = 2, todo_text = ''b'', todo_complete = False\<rparr>]"
    by (simp add: run_defs)
  note all = editTodo_changes_only_the_text [of stringify 2 "''bb''" ?s]
  from all have len: "length (model_todos (editTodo stringify 2 ''bb'' ?s)) = length (model_todos ?s)"
    by blast
  from all have first:
    "0 < length (model_todos ?s) \<Longrightarrow> todo_id (model_todos ?s ! 0) \<noteq> 2 \<Longrightarrow>
       model_todos (editTodo stringify 2 ''bb'' ?s) ! 0 = model_todos ?s ! 0"
    by blast
  from all have second:
    "1 < length (model_todos ?s) \<Longrightarrow>
       todo_id (model_todos (editTodo stringify 2 ''bb'' ?s) ! 1) = todo_id (model_todos ?s ! 1) \<and>
       todo_complete (model_todos (editTodo stringify 2 ''bb'' ?s) ! 1) =
         todo_complete (model_todos ?s ! 1) \<and>
       (todo_id (model_todos ?s ! 1) = 2 \<longrightarrow>
          todo_text (model_todos (editTodo stringify 2 ''bb'' ?s) ! 1) = ''bb'')"
    by blast
  from len first second show ?thesis
    by (simp only: list) simp
qed

subsection \<open>C7: what a deletion removes\<close>

text \<open>
  C7, as the code has it. For every list, \<^verbatim>\<open>deleteTodo(id)\<close> leaves exactly the tasks
  that do not bear the id, unaltered and in their order, and leaves the whole list as
  it is, so shorter by 0, when no task bears the id. For every list in which at most one
  task bears the id, it takes out that one task, the tasks before it and after it
  staying as they are, and the list is shorter by exactly 1 when a task bore the id.
\<close>

theorem deleteTodo_removes_the_one_match:
  "model_todos (deleteTodo JSON_stringify ident s) =
     filter (\<lambda>todo. todo_id todo \<noteq> ident) (model_todos s) \<and>
   (ident \<notin> todo_id ` set (model_todos s) \<longrightarrow>
      model_todos (deleteTodo JSON_stringify ident s) = model_todos s) \<and>
   (length (filter (\<lambda>todo. todo_id todo = ident) (model_todos s)) \<le> 1 \<longrightarrow>
      (\<forall>xs x ys. model_todos s = xs @ x # ys \<and> todo_id x = ident \<longrightarrow>
         model_todos (deleteTodo JSON_stringify ident s) = xs @ ys) \<and>
      (ident \<in> todo_id ` set (model_todos s) \<longrightarrow>
         length (model_todos (deleteTodo JSON_stringify ident s)) + 1 =
           length (model_todos s)))"
proof -
  have rest: "model_todos (deleteTodo JSON_stringify ident s) =
      filter (\<lambda>todo. todo_id todo \<noteq> ident) (model_todos s)"
    by (rule deleteTodo_todos)
  have absent: "model_todos (deleteTodo JSON_stringify ident s) = model_todos s"
    if "ident \<notin> todo_id ` set (model_todos s)"
    using that by (simp add: deleteTodo_todos unmatched_filter)
  have split: "model_todos (deleteTodo JSON_stringify ident s) = xs @ ys"
    if one: "length (filter (\<lambda>todo. todo_id todo = ident) (model_todos s)) \<le> 1"
      and list: "model_todos s = xs @ x # ys" and x: "todo_id x = ident" for xs x ys
  proof -
    from one list x have
      "length (filter (\<lambda>todo. todo_id todo = ident) xs) +
       length (filter (\<lambda>todo. todo_id todo = ident) ys) = 0"
      by simp
    then have "filter (\<lambda>todo. todo_id todo = ident) xs = []"
      and "filter (\<lambda>todo. todo_id todo = ident) ys = []"
      by simp_all
    then have "ident \<notin> todo_id ` set xs" "ident \<notin> todo_id ` set ys"
      by (auto simp: filter_empty_conv)
    with list x show ?thesis
      by (simp add: deleteTodo_todos unmatched_filter)
  qed
  have shorter: "length (model_todos (deleteTodo JSON_stringify ident s)) + 1 =
      length (model_todos s)"
    if one: "length (filter (\<lambda>todo. todo_id todo = ident) (model_todos s)) \<le> 1"
      and present: "ident \<in> todo_id ` set (model_todos s)"
  proof -
    from present obtain x where "x \<in> set (model_todos s)" "todo_id x = ident"
      by auto
    then obtain xs ys where "model_todos s = xs @ x # ys"
      by (auto dest: split_list)
    with \<open>todo_id x = ident\<close> one show ?thesis
      by (simp add: split)
  qed
  from rest absent split shorter show ?thesis
    by blast
qed

text \<open>
  In the list with the ids 1, 1 and 2, which are not distinct, one task bears the id 2:
  deleting 2 leaves the two tasks before it, and deleting 7 leaves all three.
\<close>

theorem deleteTodo_removes_the_one_match_witness:
  "model_todos (interactions stringify
     [Typing ''c'', Native Submit form] started_with_duplicate) =
     [\<lparr>todo_id = 1, todo_text = ''a'', todo_complete = False\<rparr>,
      \<lparr>todo_id = 1, todo_text = ''b'', todo_complete = True\<rparr>,
      \<lparr>todo_id = 2, todo_text = ''c'', todo_complete = False\<rparr>] \<and>
   \<not> distinct (map todo_id (model_todos (interactions stringify
     [Typing ''c'', Native Submit form] started_with_duplicate))) \<and>
   length (filter (\<lambda>todo. todo_id todo = 2) (model_todos (interactions stringify
     [Typing ''c'', Native Submit form] started_with_duplicate))) = 1 \<and>
   model_todos (deleteTodo stringify 2 (interactions stringify
     [Typing ''c'', Native Submit form] started_with_duplicate)) =
     [\<lparr>todo_id = 1, todo_text = ''a'', todo_complete = False\<rparr>,
      \<lparr>todo_id = 1, todo_text = ''b'', todo_complete = True\<rparr>] \<and>
   length (model_todos (deleteTodo stringify 2 (interactions stringify
     [Typing ''c'', Native Submit form] started_with_duplicate))) + 1 =
     length (model_todos (interactions stringify
       [Typing ''c'', Native Submit form] started_with_duplicate)) \<and>
   model_todos (deleteTodo stringify 7 (interactions stringify
     [Typing ''c'', Native Submit form] started_with_duplicate)) =
     [\<lparr>todo_id = 1, todo_text = ''a'', todo_complete = False\<rparr>,
      \<lparr>todo_id = 1, todo_text = ''b'', todo_complete = True\<rparr>,
      \<lparr>todo_id = 2, todo_text = ''c'', todo_complete = False\<rparr>]"
proof -
  let ?s = "interactions stringify
     [Typing ''c'', Native Submit form] started_with_duplicate"
  have list: "model_todos ?s =
     [\<lparr>todo_id = 1, todo_text = ''a'', todo_complete = False\<rparr>,
      \<lparr>todo_id = 1, todo_text = ''b'', todo_complete = True\<rparr>,
      \<lparr>todo_id = 2, todo_text = ''c'', todo_complete = False\<rparr>]"
    by (simp add: run_defs)
  have repeated: "\<not> distinct (map todo_id (model_todos ?s))"
    by (simp add: list)
  have one: "length (filter (\<lambda>todo. todo_id todo = 2) (model_todos ?s)) = 1"
    by (simp add: list)
  then have at_most_one: "length (filter (\<lambda>todo. todo_id todo = 2) (model_todos ?s)) \<le> 1"
    by simp
  have none: "length (filter (\<lambda>todo. todo_id todo = 7) (model_todos ?s)) \<le> 1"
    by (simp add: list)
  have split: "model_todos ?s =
     [\<lparr>todo_id = 1, todo_text = ''a'', todo_complete = False\<rparr>,
      \<lparr>todo_id = 1, todo_text = ''b'', todo_complete = True\<rparr>] @
     \<lparr>todo_id = 2, todo_text = ''c'', todo_complete = False\<rparr> # []"
    by (simp add: list)
  have present: "2 \<in> todo_id ` set (model_todos ?s)"
    by (simp add: list)
  have absent: "7 \<notin> todo_id ` set (model_todos ?s)"
    by (simp add: list)
  note two = deleteTodo_removes_the_one_match [of stringify 2 ?s]
  from two at_most_one split
  have second: "model_todos (deleteTodo stringify 2 ?s) =
     [\<lparr>todo_id = 1, todo_text = ''a'', todo_complete = False\<rparr>,
      \<lparr>todo_id = 1, todo_text = ''b'', todo_complete = True\<rparr>] @ []"
    by (metis todo.select_convs(1))
  from two at_most_one present
  have shorter: "length (model_todos (deleteTodo stringify 2 ?s)) + 1 = length (model_todos ?s)"
    by blast
  from deleteTodo_removes_the_one_match [of stringify 7 ?s] absent
  have same: "model_todos (deleteTodo stringify 7 ?s) = model_todos ?s"
    by blast
  from repeated one second shorter same show ?thesis
    by (simp only: list) simp
qed

text \<open>
  C7 as stated fails in a list where two tasks bear the id 1: deleting 1 takes both
  out, and the list of length 2 is left with length 0.
\<close>

theorem deleteTodo_shortens_by_one_counterexample:
  "map todo_id (model_todos started_with_duplicate) = [1, 1] \<and>
   length (model_todos started_with_duplicate) = 2 \<and>
   length (model_todos (deleteTodo stringify 1 started_with_duplicate)) = 0"
  by (simp add: run_defs)

subsection \<open>C8: what a toggle changes\<close>

text \<open>
  C8. \<^verbatim>\<open>toggleTodo(id)\<close> keeps the length of the list and the place of every task.
  At every place the id and the text of the task are what they were; a task bearing the
  given id has its \<^verbatim>\<open>complete\<close> field negated, and a task bearing another id is the
  same task as before. Toggling the same id twice gives back a list equal to the
  original. This holds for every list, also when several tasks bear the id: each of
  them is flipped.
\<close>

theorem toggleTodo_flips_complete:
  "length (model_todos (toggleTodo JSON_stringify ident s)) = length (model_todos s) \<and>
   (\<forall>k<length (model_todos s).
      todo_id (model_todos (toggleTodo JSON_stringify ident s) ! k) =
        todo_id (model_todos s ! k) \<and>
      todo_text (model_todos (toggleTodo JSON_stringify ident s) ! k) =
        todo_text (model_todos s ! k) \<and>
      (todo_id (model_todos s ! k) = ident \<longrightarrow>
         todo_complete (model_todos (toggleTodo JSON_stringify ident s) ! k) =
           (\<not> todo_complete (model_todos s ! k))) \<and>
      (todo_id (model_todos s ! k) \<noteq> ident \<longrightarrow>
         model_todos (toggleTodo JSON_stringify ident s) ! k = model_todos s ! k)) \<and>
   model_todos (toggleTodo JSON_stringify ident (toggleTodo JSON_stringify ident s)) =
     model_todos s"
proof -
  have twice:
    "(\<lambda>t. if todo_id t = ident then t\<lparr>todo_complete := \<not> todo_complete t\<rparr> else t) \<circ>
     (\<lambda>t. if todo_id t = ident then t\<lparr>todo_complete := \<not> todo_complete t\<rparr> else t) = id"
    by (rule ext) simp
  have "model_todos (toggleTodo JSON_stringify ident (toggleTodo JSON_stringify ident s)) =
     model_todos s"
    by (simp add: toggleTodo_todos twice)
  then show ?thesis
    by (simp add: toggleTodo_todos)
qed

text \<open>
  In the list with the tasks 1 and 2, toggling 2 completes it and leaves the task 1 as
  it was; toggling 2 again gives the first list back.
\<close>

theorem toggleTodo_flips_complete_witness:
  "model_todos (interactions stringify
     [Typing ''a'', Native Submit form, Typing ''b'', Native Submit form] started) =
     [\<lparr>todo_id = 1, todo_text = ''a'', todo_complete = False\<rparr>,
      \<lparr>todo_id = 2, todo_text = ''b'', todo_complete = False\<rparr>] \<and>
   length (model_todos (toggleTodo stringify 2 (interactions stringify
     [Typing ''a'', Native Submit form, Typing ''b'', Native Submit form] started))) = 2 \<and>
   model_todos (toggleTodo stringify 2 (interactions stringify
     [Typing ''a'', Native Submit form, Typing ''b'', Native Submit form] started)) ! 0 =
     \<lparr>todo_id = 1, todo_text = ''a'', todo_complete = False\<rparr> \<and>
   todo_id (model_todos (toggleTodo stringify 2 (interactions stringify
     [Typing ''a'', Native Submit form, Typing ''b'', Native Submit form] started)) ! 1) = 2 \<and>
   todo_text (model_todos (toggleTodo stringify 2 (interactions stringify
     [Typing ''a'', Native Submit form, Typing ''b'', Native Submit form] started)) ! 1) = ''b'' \<and>
   todo_complete (model_todos (toggleTodo stringify 2 (interactions stringify
     [Typing ''a'', Native Submit form, Typing ''b'', Native Submit form] started)) ! 1) = True \<and>
   model_todos (toggleTodo stringify 2 (toggleTodo stringify 2 (interactions stringify
     [Typing ''a'', Native Submit form, Typing ''b'', Native Submit form] started))) =
     [\<lparr>todo_id = 1, todo_text = ''a'', todo_complete = False\<rparr>,
      \<lparr>todo_id = 2, todo_text = ''b'', todo_complete = False\<rparr>]"
proof -
  let ?s = "interactions stringify
     [Typing ''a'', Native Submit form, Typing ''b'', Native Submit form] started"
  have list: "model_todos ?s =
     [\<lparr>todo_id = 1, todo_text = ''a'', todo_complete = False\<rparr>,
      \<lparr>todo_id = 2, todo_text = ''b'', todo_complete = False\<rparr>]"
    by (simp add: run_defs)
  note all = toggleTodo_flips_complete [of stringify 2 ?s]
  from all have len:
    "length (model_todos (toggleTodo stringify 2 ?s)) = length (model_todos ?s)"
    by blast
  from all have first:
    "0 < length (model_todos ?s) \<Longrightarrow> todo_id (model_todos ?s ! 0) \<noteq> 2 \<Longrightarrow>
       model_todos (toggleTodo stringify 2 ?s) ! 0 = model_todos ?s ! 0"
    by blast
  from all have second:
    "1 < length (model_todos ?s) \<Longrightarrow>
       todo_id (model_todos (toggleTodo stringify 2 ?s) ! 1) = todo_id (model_todos ?s ! 1) \<and>
       todo_text (model_todos (toggleTodo stringify 2 ?s) ! 1) =
         todo_text (model_todos ?s ! 1) \<and>
       (todo_id (model_todos ?s ! 1) = 2 \<longrightarrow>
          todo_complete (model_todos (toggleTodo stringify 2 ?s) ! 1) =
            (\<not> todo_complete (model_todos ?s ! 1)))"
    by blast
  from all have twice:
    "model_todos (toggleTodo stringify 2 (toggleTodo stringify 2 ?s)) = model_todos ?s"
    by blast
  from len first second twice show ?thesis
    by (simp only: list) simp
qed

subsection \<open>C9: loading the stored list\<close>

text \<open>
  C9. When nothing is stored under the key \<^verbatim>\<open>todos\<close>, the constructor of the Model
  gives the empty list, and the program starts with it: \<^verbatim>\<open>getItem\<close> yields
  \<^verbatim>\<open>null\<close>, which \<^verbatim>\<open>JSON.parse\<close> reads as the text \<^verbatim>\<open>null\<close> and returns as
  \<^verbatim>\<open>null\<close>, and \<^verbatim>\<open>|| []\<close> replaces it. When the stored text is one that
  \<^verbatim>\<open>JSON.parse\<close> rejects, its error is the result of the constructor, and of the
  program: no Model exists and nothing falls back to the empty list.
\<close>

theorem Model_constructor_loads_or_fails:
  "(storage ''todos'' = None \<and> JSON_parse ''null'' = Inr Null \<longrightarrow>
      Model_constructor JSON_parse storage = Inr [] \<and>
      (\<exists>s. main JSON_parse storage = Inr s \<and> model_todos s = [])) \<and>
   (storage ''todos'' = Some v \<and> JSON_parse v = Inl e \<longrightarrow>
      Model_constructor JSON_parse storage = Inl e \<and>
      main JSON_parse storage = Inl e)"
  by (simp add: Model_constructor_def main_def Controller_constructor_def Let_def
      onTodoListChanged_def displayTodos_def)

text \<open>
  With an empty store the list is empty; with the text \<^verbatim>\<open>{oops\<close> stored, which is not
  JSON, the constructor and the program end in the syntax error.
\<close>

theorem Model_constructor_loads_or_fails_witness:
  "Map.empty ''todos'' = (None :: string option) \<and>
   parse_fragment ''null'' = Inr Null \<and>
   Model_constructor parse_fragment Map.empty = Inr [] \<and>
   [''todos'' \<mapsto> ''{oops''] ''todos'' = Some ''{oops'' \<and>
   parse_fragment ''{oops'' = Inl SyntaxError \<and>
   Model_constructor parse_fragment [''todos'' \<mapsto> ''{oops''] = Inl SyntaxError \<and>
   main parse_fragment [''todos'' \<mapsto> ''{oops''] = Inl SyntaxError"
proof -
  have absent: "Map.empty ''todos'' = (None :: string option)"
    and null: "parse_fragment ''null'' = Inr Null"
    and stored: "[''todos'' \<mapsto> ''{oops''] ''todos'' = Some ''{oops''"
    and rejected: "parse_fragment ''{oops'' = Inl SyntaxError"
    by (simp_all add: parse_fragment_def)
  from Model_constructor_loads_or_fails [of Map.empty parse_fragment] absent null
  have empty: "Model_constructor parse_fragment Map.empty = Inr []"
    by blast
  from Model_constructor_loads_or_fails
    [of "[''todos'' \<mapsto> ''{oops'']" parse_fragment "''{oops''" SyntaxError] stored rejected
  have failed: "Model_constructor parse_fragment [''todos'' \<mapsto> ''{oops''] = Inl SyntaxError"
    "main parse_fragment [''todos'' \<mapsto> ''{oops''] = Inl SyntaxError"
    by blast+
  from absent null stored rejected empty failed show ?thesis
    by (intro conjI)
qed

subsection \<open>C10: a deletion removes every match\<close>

text \<open>
  C10. \<^verbatim>\<open>deleteTodo(id)\<close> removes every task that bears the id, not at most one: the
  list gets shorter by the number of tasks that bore the id, and no task of the new
  list bears it.
\<close>

theorem deleteTodo_removes_every_match:
  "length (model_todos (deleteTodo JSON_stringify ident s)) +
     length (filter (\<lambda>todo. todo_id todo = ident) (model_todos s)) =
     length (model_todos s) \<and>
   ident \<notin> todo_id ` set (model_todos (deleteTodo JSON_stringify ident s))"
proof -
  have "length (filter (\<lambda>todo. todo_id todo \<noteq> ident) (model_todos s)) +
     length (filter (\<lambda>todo. todo_id todo = ident) (model_todos s)) =
     length (model_todos s)"
    using sum_length_filter_compl [of "\<lambda>todo. todo_id todo \<noteq> ident" "model_todos s"]
    by simp
  then show ?thesis
    by (auto simp: deleteTodo_todos)
qed

text \<open>
  In the list where two tasks bear the id 1, two tasks match, and deleting 1 leaves
  none of the two.
\<close>

theorem deleteTodo_removes_every_match_witness:
  "length (model_todos started_with_duplicate) = 2 \<and>
   length (filter (\<lambda>todo. todo_id todo = 1) (model_todos started_with_duplicate)) = 2 \<and>
   length (model_todos (deleteTodo stringify 1 started_with_duplicate)) = 0 \<and>
   1 \<notin> todo_id ` set (model_todos (deleteTodo stringify 1 started_with_duplicate))"
proof -
  have list: "model_todos started_with_duplicate =
     [\<lparr>todo_id = 1, todo_text = ''a'', todo_complete = False\<rparr>,
      \<lparr>todo_id = 1, todo_text = ''b'', todo_complete = True\<rparr>]"
    by (simp add: run_defs)
  have len: "length (model_todos started_with_duplicate) = 2"
    and matches:
      "length (filter (\<lambda>todo. todo_id todo = 1) (model_todos started_with_duplicate)) = 2"
    by (simp_all add: list)
  from deleteTodo_removes_every_match [of stringify 1 started_with_duplicate] len matches
  show ?thesis by simp
qed

end
